theory Spec2Isabelle
  imports Complex_Main "HOL-Library.Word" "HOL-Library.List_Lexorder"
begin

unbundle bit_operations_syntax

section \<open>Cosmetics Store API: the handlers of main.py\<close>

subsection \<open>Text\<close>

text \<open>
  A Python \<^verbatim>\<open>str\<close> is a sequence of code points: slicing counts code points and
  comparison is lexicographic on them. It is modelled as a list of code points, so
  that \<^verbatim>\<open>s[:50]\<close> is \<open>take 50 s\<close> and \<^verbatim>\<open>sort()\<close> is the order of
  \<open>List_Lexorder\<close>. \<open>py\<close> reads an ASCII literal of the source.
\<close>

type_synonym pystr = "nat list"

definition py :: "string \<Rightarrow> pystr" where
  "py s = map of_char s"

text \<open>The three symbols main.py puts in front of its diagnostic texts.\<close>

definition check_mark :: pystr where
  "check_mark = [9989]"

definition cross_mark :: pystr where
  "cross_mark = [10060]"

definition warning_sign :: pystr where
  "warning_sign = [9888, 65039]"

subsection \<open>Product schema\<close>

text \<open>
  Modelled from the spec: schemas.py (class CosmeticProduct) is not among the sources.
  The fields are those of section 3 of the specification, which are also the keys
  of every sample record in \<^verbatim>\<open>seed_sample_products\<close>. The decimal fields are only
  stored and returned, never computed with; they are carried as rationals.
\<close>

record CosmeticProduct =
  title :: pystr
  description :: "pystr option"
  price :: rat
  category :: "pystr option"
  in_stock :: bool
  image_url :: "pystr option"
  shopify_url :: "pystr option"
  brand :: "pystr option"
  tags :: "pystr list option"
  rating :: "rat option"

text \<open>
  \<^verbatim>\<open>class CreateProductRequest(CosmeticProduct): pass\<close> adds nothing: a creation
  payload is a \<open>CosmeticProduct\<close>, which has no id.
  \<^verbatim>\<open>class ProductResponse(CosmeticProduct): id: Optional[str] = None\<close>.
\<close>

type_synonym CreateProductRequest = CosmeticProduct

record ProductResponse = CosmeticProduct +
  id_field :: "pystr option"

subsection \<open>The document store\<close>

text \<open>
  The store's identifier is a 12-byte ObjectId; \<^verbatim>\<open>str\<close> of it is its 24 lower-case
  hexadecimal digits, most significant first.
\<close>

type_synonym ObjectId = "96 word"

definition hex_digit :: "nat \<Rightarrow> nat" where
  "hex_digit n = (if n < 10 then 48 + n else 87 + n)"

definition oid_str :: "ObjectId \<Rightarrow> pystr" where
  "oid_str w = map (\<lambda>i. hex_digit (unat (drop_bit (4 * (23 - i)) w AND 15))) [0..<24]"

text \<open>A stored document: the product's fields and the key \<^verbatim>\<open>_id\<close>.\<close>

record document = CosmeticProduct +
  mongo_id :: ObjectId

text \<open>
  The handle \<^verbatim>\<open>db\<close> is \<open>None\<close> when the store is not configured and otherwise
  a database: its \<^verbatim>\<open>name\<close> attribute (if it has one), its collections by name (a
  collection that does not exist holds no document), the names of the existing
  collections, the next identifier the store will generate, and \<open>fault\<close>: when it
  is \<open>Some m\<close>, every access to the store raises an exception whose text is \<open>m\<close>.
  \<open>diag_limit\<close> is the length to which the adapter of database.py cuts a diagnostic
  text; the specification gives no number for it.
\<close>

record Database =
  name :: "pystr option"
  colls :: "string \<Rightarrow> document list"
  coll_names :: "string list"
  next_id :: ObjectId
  fault :: "pystr option"
  diag_limit :: nat

datatype error =
    HTTPException nat pystr
  | Exception pystr
  | StoreError pystr

text \<open>A filter maps field names to the value the field must be equal to.\<close>

type_synonym filter_dict = "(string \<times> pystr) list"

definition str_field :: "string \<Rightarrow> document \<Rightarrow> pystr option" where
  "str_field k it =
     (if k = ''title'' then Some (title it)
      else if k = ''description'' then description it
      else if k = ''category'' then category it
      else if k = ''image_url'' then image_url it
      else if k = ''shopify_url'' then shopify_url it
      else if k = ''brand'' then brand it
      else None)"

definition matches :: "filter_dict \<Rightarrow> document \<Rightarrow> bool" where
  "matches f it = list_all (\<lambda>(k, v). str_field k it = Some v) f"

text \<open>
  The driver's calls. Each one raises (the left summand, holding the text of the
  exception) when the store is faulting.
\<close>

definition driver :: "Database \<Rightarrow> 'a \<Rightarrow> pystr + 'a" where
  "driver d v = (case fault d of Some m \<Rightarrow> Inl m | None \<Rightarrow> Inr v)"

definition list_collection_names :: "Database \<Rightarrow> pystr + pystr list" where
  "list_collection_names d = driver d (map py (coll_names d))"

definition count_documents :: "Database \<Rightarrow> string \<Rightarrow> filter_dict \<Rightarrow> pystr + nat" where
  "count_documents d c f = driver d (length (filter (matches f) (colls d c)))"

definition distinct_category :: "Database \<Rightarrow> string \<Rightarrow> pystr + pystr option list" where
  "distinct_category d c = driver d (remdups (map category (colls d c)))"

definition find :: "Database \<Rightarrow> string \<Rightarrow> filter_dict \<Rightarrow> pystr + document list" where
  "find d c f = driver d (filter (matches f) (colls d c))"

definition with_id :: "CosmeticProduct \<Rightarrow> ObjectId \<Rightarrow> document" where
  "with_id p i =
     \<lparr>title = title p, description = description p, price = price p,
      category = category p, in_stock = in_stock p, image_url = image_url p,
      shopify_url = shopify_url p, brand = brand p, tags = tags p, rating = rating p,
      mongo_id = i\<rparr>"

definition insert_one :: "Database \<Rightarrow> string \<Rightarrow> CosmeticProduct \<Rightarrow> pystr + (ObjectId \<times> Database)" where
  "insert_one d c p =
     driver d (next_id d,
       d\<lparr>colls := (colls d)(c := colls d c @ [with_id p (next_id d)]),
         coll_names := (if c \<in> set (coll_names d) then coll_names d else coll_names d @ [c]),
         next_id := next_id d + 1\<rparr>)"

text \<open>
  database.py (\<^verbatim>\<open>db\<close>, \<^verbatim>\<open>create_document\<close>, \<^verbatim>\<open>get_documents\<close>) is not among
  the sources; its three functions below follow section 4.1 of the specification.
\<close>

text \<open>
  Modelled from the spec: the adapter's error, missing with database.py. "Any
  store-level fault surfaces as a generic store error carrying a truncated
  diagnostic message".
\<close>

definition store_error :: "Database \<Rightarrow> pystr \<Rightarrow> error" where
  "store_error d m = StoreError (take (diag_limit d) m)"

text \<open>
  Modelled from the spec: \<^verbatim>\<open>create_document\<close>, missing with database.py. Insert
  "writes one document, returns the generated identifier as a string".
\<close>

definition create_document :: "Database \<Rightarrow> string \<Rightarrow> CosmeticProduct \<Rightarrow> error + (pystr \<times> Database)" where
  "create_document d collection_name data =
     (case insert_one d collection_name data of
        Inl m \<Rightarrow> Inl (store_error d m)
      | Inr (inserted_id, d') \<Rightarrow> Inr (oid_str inserted_id, d'))"

text \<open>
  Modelled from the spec: \<^verbatim>\<open>get_documents\<close>, missing with database.py. Find takes
  "a mapping of field to exact-match value; empty filter returns all documents in
  insertion order". \<^verbatim>\<open>list_products\<close> pops the key \<^verbatim>\<open>_id\<close> from every document
  it gets, so the documents are returned with that key.
\<close>

definition get_documents :: "Database \<Rightarrow> string \<Rightarrow> filter_dict \<Rightarrow> error + document list" where
  "get_documents d collection_name filter_dict =
     (case find d collection_name filter_dict of
        Inl m \<Rightarrow> Inl (store_error d m)
      | Inr items \<Rightarrow> Inr items)"

subsection \<open>Handlers\<close>

datatype jval = JStr pystr | JInt int

type_synonym dict = "(string \<times> jval) list"

definition not_configured :: error where
  "not_configured = HTTPException 500 (py ''Database not configured'')"

definition read_root :: dict where
  "read_root = [(''message'', JStr (py ''Cosmetics Store Backend is running''))]"

definition hello :: dict where
  "hello = [(''message'', JStr (py ''Hello from the backend API!''))]"

text \<open>
  \<^verbatim>\<open>os.getenv(k)\<close> is tested for truth: the variable is set and not empty.
\<close>

type_synonym environ = "string \<rightharpoonup> pystr"

definition getenv_true :: "environ \<Rightarrow> string \<Rightarrow> bool" where
  "getenv_true env k = (case env k of Some (c # cs) \<Rightarrow> True | _ \<Rightarrow> False)"

record test_response =
  backend :: pystr
  database :: pystr
  database_url :: "pystr option"
  database_name :: "pystr option"
  connection_status :: pystr
  collections :: "pystr list"

text \<open>The inner \<^verbatim>\<open>try\<close> of \<^verbatim>\<open>test_database\<close>, around the one store access.\<close>

definition test_database_inner :: "Database \<Rightarrow> test_response \<Rightarrow> test_response" where
  "test_database_inner d response =
     (case list_collection_names d of
        Inr collections' \<Rightarrow>
          response\<lparr>collections := take 10 collections',
                   database := check_mark @ py '' Connected & Working''\<rparr>
      | Inl e \<Rightarrow>
          response\<lparr>database := warning_sign @ py ''  Connected but Error: '' @ take 50 e\<rparr>)"

text \<open>
  The body of the outer \<^verbatim>\<open>try\<close>. An exception would leave it with the response
  as it was mutated so far (the left summand); no statement outside the inner
  \<^verbatim>\<open>try\<close> accesses the store.
\<close>

definition test_database_body ::
    "Database option \<Rightarrow> test_response \<Rightarrow> (pystr \<times> test_response) + test_response" where
  "test_database_body db response =
     (case db of
        Some d \<Rightarrow>
          Inr (test_database_inner d
            (response\<lparr>database := check_mark @ py '' Available'',
                      database_url := Some (check_mark @ py '' Configured''),
                      database_name :=
                        Some (case name d of Some n \<Rightarrow> n | None \<Rightarrow> check_mark @ py '' Connected''),
                      connection_status := py ''Connected''\<rparr>))
      | None \<Rightarrow>
          Inr (response\<lparr>database := warning_sign @ py ''  Available but not initialized''\<rparr>))"

definition test_database :: "Database option \<Rightarrow> environ \<Rightarrow> error + test_response" where
  "test_database db env =
     (let response =
            \<lparr>backend = check_mark @ py '' Running'',
             database = cross_mark @ py '' Not Available'',
             database_url = None,
             database_name = None,
             connection_status = py ''Not Connected'',
             collections = []\<rparr>;
          response =
            (case test_database_body db response of
               Inr r \<Rightarrow> r
             | Inl (e, r) \<Rightarrow> r\<lparr>database := cross_mark @ py '' Error: '' @ take 50 e\<rparr>);
          response = response\<lparr>database_url :=
            Some (if getenv_true env ''DATABASE_URL'' then check_mark @ py '' Set''
                  else cross_mark @ py '' Not Set'')\<rparr>;
          response = response\<lparr>database_name :=
            Some (if getenv_true env ''DATABASE_NAME'' then check_mark @ py '' Set''
                  else cross_mark @ py '' Not Set'')\<rparr>
      in Inr response)"

text \<open>
  \<^verbatim>\<open>it["id"] = str(it.pop("_id")); ProductResponse(**it)\<close>
\<close>

definition to_ProductResponse :: "document \<Rightarrow> ProductResponse" where
  "to_ProductResponse it =
     \<lparr>title = title it, description = description it, price = price it,
      category = category it, in_stock = in_stock it, image_url = image_url it,
      shopify_url = shopify_url it, brand = brand it, tags = tags it, rating = rating it,
      id_field = Some (oid_str (mongo_id it))\<rparr>"

fun list_products_loop :: "document list \<Rightarrow> ProductResponse list \<Rightarrow> ProductResponse list" where
  "list_products_loop [] results = results"
| "list_products_loop (it # items) results =
     list_products_loop items (results @ [to_ProductResponse it])"

definition list_products :: "Database option \<Rightarrow> pystr option \<Rightarrow> error + ProductResponse list" where
  "list_products db category' =
     (case db of
        None \<Rightarrow> Inl not_configured
      | Some d \<Rightarrow>
          (let filter_dict =
                 (case category' of Some (c # cs) \<Rightarrow> [(''category'', c # cs)] | _ \<Rightarrow> [])
           in case get_documents d ''cosmeticproduct'' filter_dict of
                Inl e \<Rightarrow> Inl e
              | Inr items \<Rightarrow> Inr (list_products_loop items [])))"

definition create_product ::
    "Database option \<Rightarrow> CreateProductRequest \<Rightarrow> error + (dict \<times> Database)" where
  "create_product db payload =
     (case db of
        None \<Rightarrow> Inl not_configured
      | Some d \<Rightarrow>
          (case create_document d ''cosmeticproduct'' payload of
             Inl e \<Rightarrow> Inl e
           | Inr (new_id, d') \<Rightarrow> Inr ([(''id'', JStr new_id)], d')))"

text \<open>\<^verbatim>\<open>[c for c in cats if c]\<close>: neither \<^verbatim>\<open>None\<close> nor the empty string.\<close>

definition truthy :: "pystr option list \<Rightarrow> pystr list" where
  "truthy cats = [c. Some c \<leftarrow> cats, c \<noteq> []]"

definition list_categories :: "Database option \<Rightarrow> error + pystr list" where
  "list_categories db =
     (case db of
        None \<Rightarrow> Inl not_configured
      | Some d \<Rightarrow>
          (case distinct_category d ''cosmeticproduct'' of
             Inr cats \<Rightarrow> Inr (sort (truthy cats))
           | Inl e \<Rightarrow> Inl (HTTPException 500 e)))"

definition samples :: "CosmeticProduct list" where
  "samples =
     [\<lparr>title = py ''Velvet Matte Lipstick'',
       description = Some (py ''Rich pigment, long-lasting matte finish''),
       price = 1499 / 100,
       category = Some (py ''makeup''),
       in_stock = True,
       image_url = Some (py ''https://images.unsplash.com/photo-1585218336020-3a9c1a66d0d8?q=80&w=1200&auto=format&fit=crop''),
       shopify_url = None,
       brand = Some (py ''GlowLab''),
       tags = Some [py ''lipstick'', py ''matte''],
       rating = Some (46 / 10)\<rparr>,
      \<lparr>title = py ''Hydrating Face Serum'',
       description = Some (py ''Hyaluronic acid + Vitamin B5 for deep hydration''),
       price = 245 / 10,
       category = Some (py ''skincare''),
       in_stock = True,
       image_url = Some (py ''https://images.unsplash.com/photo-1611930022073-b7a4ba5fcccd?q=80&w=1200&auto=format&fit=crop''),
       shopify_url = None,
       brand = Some (py ''PureSkin''),
       tags = Some [py ''serum'', py ''hydrating''],
       rating = Some (48 / 10)\<rparr>,
      \<lparr>title = py ''Nourishing Hair Oil'',
       description = Some (py ''Lightweight oil for shine and frizz control''),
       price = 18,
       category = Some (py ''haircare''),
       in_stock = True,
       image_url = Some (py ''https://images.unsplash.com/photo-1604654894610-df63bc536371?q=80&w=1200&auto=format&fit=crop''),
       shopify_url = None,
       brand = Some (py ''SilkRoot''),
       tags = Some [py ''hair'', py ''oil''],
       rating = Some (45 / 10)\<rparr>,
      \<lparr>title = py ''Mineral Sunscreen SPF 50'',
       description = Some (py ''Broad spectrum, reef-safe mineral sunscreen''),
       price = 1999 / 100,
       category = Some (py ''skincare''),
       in_stock = True,
       image_url = Some (py ''https://images.unsplash.com/photo-1610384104073-96d02d53c16f?q=80&w=1200&auto=format&fit=crop''),
       shopify_url = None,
       brand = Some (py ''SunVeil''),
       tags = Some [py ''sunscreen'', py ''spf50''],
       rating = Some (47 / 10)\<rparr>]"

text \<open>\<^verbatim>\<open>for s in samples: create_document("cosmeticproduct", s)\<close>\<close>

fun seed_loop :: "Database \<Rightarrow> CosmeticProduct list \<Rightarrow> error + Database" where
  "seed_loop d [] = Inr d"
| "seed_loop d (s # ss) =
     (case create_document d ''cosmeticproduct'' s of
        Inl e \<Rightarrow> Inl e
      | Inr (new_id, d') \<Rightarrow> seed_loop d' ss)"

definition seed_sample_products :: "Database option \<Rightarrow> error + (dict \<times> Database)" where
  "seed_sample_products db =
     (case db of
        None \<Rightarrow> Inl not_configured
      | Some d \<Rightarrow>
          (case count_documents d ''cosmeticproduct'' [] of
             Inl e \<Rightarrow> Inl (Exception e)
           | Inr count \<Rightarrow>
               if count > 0 then
                 Inr ([(''status'', JStr (py ''ok'')),
                       (''message'', JStr (py ''Products already exist'')),
                       (''count'', JInt (int count))], d)
               else
                 (case seed_loop d samples of
                    Inl e \<Rightarrow> Inl e
                  | Inr d' \<Rightarrow>
                      Inr ([(''status'', JStr (py ''ok'')),
                            (''inserted'', JInt (int (length samples)))], d'))))"

subsection \<open>Routes\<close>

text \<open>
  The decorators of main.py: the method and path of each handler, and the status
  of a successful response (200 unless \<^verbatim>\<open>status_code\<close> is given). A raised
  \<^verbatim>\<open>HTTPException\<close> becomes a response with its status and its detail; any other
  exception leaves the handler unhandled.
\<close>

datatype request =
    GET_root
  | GET_api_hello
  | GET_test
  | GET_api_products "pystr option"
  | POST_api_products CreateProductRequest
  | GET_api_categories
  | POST_api_seed

datatype body =
    Dict dict
  | Products "ProductResponse list"
  | Strings "pystr list"
  | Diagnostic test_response

datatype http_response =
    Response nat body
  | ErrorResponse nat pystr
  | Unhandled error

definition respond :: "nat \<Rightarrow> error + body \<Rightarrow> http_response" where
  "respond status_code r =
     (case r of
        Inr b \<Rightarrow> Response status_code b
      | Inl (HTTPException c detail) \<Rightarrow> ErrorResponse c detail
      | Inl e \<Rightarrow> Unhandled e)"

definition respond_write ::
    "nat \<Rightarrow> Database option \<Rightarrow> error + (dict \<times> Database) \<Rightarrow> http_response \<times> Database option" where
  "respond_write status_code db r =
     (case r of
        Inr (b, d') \<Rightarrow> (Response status_code (Dict b), Some d')
      | Inl e \<Rightarrow> (respond status_code (Inl e), db))"

fun app :: "Database option \<Rightarrow> environ \<Rightarrow> request \<Rightarrow> http_response \<times> Database option" where
  "app db env GET_root = (Response 200 (Dict read_root), db)"
| "app db env GET_api_hello = (Response 200 (Dict hello), db)"
| "app db env GET_test = (respond 200 (map_sum id Diagnostic (test_database db env)), db)"
| "app db env (GET_api_products category') =
     (respond 200 (map_sum id Products (list_products db category')), db)"
| "app db env (POST_api_products payload) = respond_write 201 db (create_product db payload)"
| "app db env GET_api_categories = (respond 200 (map_sum id Strings (list_categories db)), db)"
| "app db env POST_api_seed = respond_write 200 db (seed_sample_products db)"

subsection \<open>Example stores\<close>

text \<open>
  The payload of the specification's example,
  \<^verbatim>\<open>{"title":"Test","price":9.99,"category":"makeup"}\<close>, with the schema's
  defaults; an empty store, a store holding that one product, and the latter when
  the server refuses the connection.
\<close>

definition test_payload :: CreateProductRequest where
  "test_payload =
     \<lparr>title = py ''Test'', description = None, price = 999 / 100,
      category = Some (py ''makeup''), in_stock = True, image_url = None,
      shopify_url = None, brand = None, tags = None, rating = None\<rparr>"

definition empty_store :: Database where
  "empty_store =
     \<lparr>name = Some (py ''cosmetics''), colls = (\<lambda>c. []), coll_names = [],
      next_id = 0, fault = None, diag_limit = 50\<rparr>"

definition one_product_store :: Database where
  "one_product_store =
     empty_store\<lparr>colls := (\<lambda>c. if c = ''cosmeticproduct'' then [with_id test_payload 0] else []),
                 coll_names := [''cosmeticproduct''], next_id := 1\<rparr>"



definition three_product_store :: Database where
  "three_product_store =
     empty_store\<lparr>colls := (\<lambda>c. if c = ''cosmeticproduct'' then
         [with_id (test_payload\<lparr>category := Some (py ''skincare'')\<rparr>) 0,
          with_id test_payload 1,
          with_id (test_payload\<lparr>category := Some (py ''skincare'')\<rparr>) 2] else []),
       coll_names := [''cosmeticproduct''], next_id := 3\<rparr>"

section \<open>Properties\<close>

subsection \<open>Auxiliary facts\<close>

lemma list_products_loop_eq:
  "list_products_loop items results = results @ map to_ProductResponse items"
  by (induction items arbitrary: results) simp_all

lemma length_oid_str: "length (oid_str w) = 24"
  by (simp add: oid_str_def)

lemma matches_Nil: "matches [] it"
  by (simp add: matches_def)

lemma matches_category: "matches [(''category'', x)] = (\<lambda>it. category it = Some x)"
  by (rule ext) (simp add: matches_def str_field_def)

lemma get_documents_ok:
  "fault d = None \<Longrightarrow> get_documents d c f = Inr (filter (matches f) (colls d c))"
  by (simp add: get_documents_def find_def driver_def)

lemma list_products_None:
  "fault d = None \<Longrightarrow>
   list_products (Some d) None = Inr (map to_ProductResponse (colls d ''cosmeticproduct''))"
  by (simp add: list_products_def get_documents_ok list_products_loop_eq matches_Nil)

lemma list_products_empty:
  "list_products db (Some []) = list_products db None"
  by (cases db) (simp_all add: list_products_def)

lemma list_products_Some:
  "fault d = None \<Longrightarrow> X \<noteq> [] \<Longrightarrow>
   list_products (Some d) (Some X) =
     Inr (map to_ProductResponse
       (filter (\<lambda>it. category it = Some X) (colls d ''cosmeticproduct'')))"
  by (cases X)
    (simp_all add: list_products_def get_documents_ok list_products_loop_eq matches_category)

lemma insert_one_ok:
  "fault d = None \<Longrightarrow> insert_one d c p =
     Inr (next_id d, d\<lparr>colls := (colls d)(c := colls d c @ [with_id p (next_id d)]),
         coll_names := (if c \<in> set (coll_names d) then coll_names d else coll_names d @ [c]),
         next_id := next_id d + 1\<rparr>)"
  by (simp add: insert_one_def driver_def)

lemma create_document_ok:
  "fault d = None \<Longrightarrow> \<exists>d'. create_document d c p = Inr (oid_str (next_id d), d') \<and>
     fault d' = None \<and> colls d' c = colls d c @ [with_id p (next_id d)]"
  by (simp add: create_document_def insert_one_ok)

lemma truncate_to_ProductResponse:
  "CosmeticProduct.truncate (to_ProductResponse (with_id p i)) = p"
  by (cases p) (simp add: CosmeticProduct.truncate_def to_ProductResponse_def with_id_def)

lemma truncate_with_id:
  "CosmeticProduct.truncate (with_id p i) = p"
  by (cases p) (simp add: CosmeticProduct.truncate_def with_id_def)

lemma id_field_to_ProductResponse:
  "id_field (to_ProductResponse it) = Some (oid_str (mongo_id it))"
  by (simp add: to_ProductResponse_def)

lemma count_documents_ok:
  "fault d = None \<Longrightarrow> count_documents d c [] = Inr (length (colls d c))"
  by (simp add: count_documents_def driver_def matches_def)

lemma seed_loop_ok:
  "fault d = None \<Longrightarrow>
   \<exists>d'. seed_loop d ss = Inr d' \<and> fault d' = None \<and>
     map CosmeticProduct.truncate (colls d' ''cosmeticproduct'') =
       map CosmeticProduct.truncate (colls d ''cosmeticproduct'') @ ss"
proof (induction ss arbitrary: d)
  case Nil
  then show ?case by simp
next
  case (Cons s ss)
  from create_document_ok [OF Cons.prems] obtain d1 where
    c: "create_document d ''cosmeticproduct'' s = Inr (oid_str (next_id d), d1)"
    and f: "fault d1 = None"
    and a: "colls d1 ''cosmeticproduct'' = colls d ''cosmeticproduct'' @ [with_id s (next_id d)]"
    by blast
  from Cons.IH [OF f] obtain d' where
    "seed_loop d1 ss = Inr d'" "fault d' = None"
    "map CosmeticProduct.truncate (colls d' ''cosmeticproduct'') =
       map CosmeticProduct.truncate (colls d1 ''cosmeticproduct'') @ ss"
    by blast
  then show ?case
    by (simp add: c a truncate_with_id)
qed

lemma length_samples: "length samples = 4"
  by (simp add: samples_def)

lemma set_truthy: "set (truthy cats) = {c. Some c \<in> set cats \<and> c \<noteq> []}"
  by (induction cats) (auto simp add: truthy_def split: option.splits)

lemma truthy_Nil: "truthy [] = []"
  by (simp add: truthy_def)

lemma truthy_Cons:
  "truthy (x # cats) = (case x of Some (c # cs) \<Rightarrow> (c # cs) # truthy cats | _ \<Rightarrow> truthy cats)"
  by (simp add: truthy_def split: option.splits list.splits)

lemma distinct_truthy: "distinct cats \<Longrightarrow> distinct (truthy cats)"
  by (induction cats)
    (auto simp add: truthy_Nil truthy_Cons set_truthy split: option.splits list.splits)

lemma list_categories_ok:
  "fault d = None \<Longrightarrow>
   list_categories (Some d) =
     Inr (sort (truthy (remdups (map category (colls d ''cosmeticproduct'')))))"
  by (simp add: list_categories_def distinct_category_def driver_def)



text \<open>The example stores.\<close>

lemma fault_empty_store: "fault empty_store = None"
  by (simp add: empty_store_def)

lemma fault_one_product_store: "fault one_product_store = None"
  by (simp add: one_product_store_def empty_store_def)

lemma colls_one_product_store:
  "colls one_product_store ''cosmeticproduct'' = [with_id test_payload 0]"
  by (simp add: one_product_store_def)

lemma category_test_payload: "category (with_id test_payload i) = Some (py ''makeup'')"
  by (simp add: with_id_def test_payload_def)

lemma oid_str_0: "oid_str 0 = py ''000000000000000000000000''"
  by (simp add: oid_str_def hex_digit_def py_def upt_rec)


subsection \<open>Listing products\<close>

text \<open>
  C1, as stated, at the empty category: the store holds one product of category
  makeup, and \<^verbatim>\<open>GET /api/products?category=\<close> returns it, which is not the list
  of the stored products whose category is the empty string.
\<close>

theorem list_products_empty_category_not_subset:
  "list_products (Some one_product_store) (Some []) \<noteq>
     Inr (map to_ProductResponse
       (filter (\<lambda>it. category it = Some []) (colls one_product_store ''cosmeticproduct'')))"
  by (simp add: list_products_empty list_products_None one_product_store_def empty_store_def
      with_id_def test_payload_def py_def)

text \<open>
  C1, amended: on an available store that does not fault, \<^verbatim>\<open>GET /api/products\<close>
  with no category returns every stored product exactly once (the stored documents,
  one response each, in their order), and with a category \<open>X\<close> that is not empty
  it returns exactly the stored products whose category is \<open>X\<close>.
\<close>

theorem list_products_all_and_by_category:
  "fault d = None \<Longrightarrow>
   list_products (Some d) None = Inr (map to_ProductResponse (colls d ''cosmeticproduct'')) \<and>
   (X \<noteq> [] \<longrightarrow> list_products (Some d) (Some X) =
     Inr (map to_ProductResponse
       (filter (\<lambda>it. category it = Some X) (colls d ''cosmeticproduct''))))"
  by (simp add: list_products_None list_products_Some)

theorem list_products_all_and_by_category_witness:
  "fault one_product_store = None \<and> py ''makeup'' \<noteq> [] \<and>
   list_products (Some one_product_store) None =
     Inr [to_ProductResponse (with_id test_payload 0)] \<and>
   list_products (Some one_product_store) (Some (py ''makeup'')) =
     Inr [to_ProductResponse (with_id test_payload 0)] \<and>
   list_products (Some one_product_store) (Some (py ''skincare'')) = Inr []"
  using list_products_all_and_by_category [of one_product_store "py ''makeup''"]
    list_products_all_and_by_category [of one_product_store "py ''skincare''"]
  by (simp add: one_product_store_def empty_store_def with_id_def test_payload_def py_def)

text \<open>
  C9: an empty category is treated as an absent one. \<^verbatim>\<open>GET /api/products?category=\<close>
  gives what \<^verbatim>\<open>GET /api/products\<close> gives, on every state of the store; on an
  available store that does not fault this is every stored product, not only those
  whose category is the empty string.
\<close>

theorem empty_category_is_no_filter:
  "list_products db (Some []) = list_products db None \<and>
   (fault d = None \<longrightarrow>
      list_products (Some d) (Some []) =
        Inr (map to_ProductResponse (colls d ''cosmeticproduct'')))"
  by (simp add: list_products_empty list_products_None)

theorem empty_category_is_no_filter_witness:
  "fault one_product_store = None \<and>
   list_products (Some one_product_store) (Some []) =
     Inr [to_ProductResponse (with_id test_payload 0)] \<and>
   category (with_id test_payload 0) \<noteq> Some []"
  using empty_category_is_no_filter [of "Some one_product_store" one_product_store]
  by (auto simp add: fault_one_product_store colls_one_product_store category_test_payload
      py_def)

text \<open>
  C7: on an available store that does not fault, every record that
  \<^verbatim>\<open>GET /api/products\<close> returns (with or without a category) carries an id, a
  string that is not empty: the string of the \<^verbatim>\<open>_id\<close> of the stored document the
  record was made from. The id is no field of a creation payload (a
  \<open>CreateProductRequest\<close> is a \<open>CosmeticProduct\<close>): the id a creation gives is
  that of the store's next identifier, whatever the payload.
\<close>

theorem listed_products_carry_store_id:
  assumes "fault d = None"
  shows "(\<exists>rs. list_products (Some d) c = Inr rs \<and>
     (\<forall>r \<in> set rs. \<exists>i. id_field r = Some i \<and> i \<noteq> [] \<and>
        (\<exists>it \<in> set (colls d ''cosmeticproduct''). i = oid_str (mongo_id it) \<and>
           CosmeticProduct.truncate r = CosmeticProduct.truncate it))) \<and>
     (\<exists>d'. create_product (Some d) payload = Inr ([(''id'', JStr (oid_str (next_id d)))], d'))"
proof -
  have l: "list_products (Some d) c =
      Inr (map to_ProductResponse (filter (matches
        (case c of Some (x # xs) \<Rightarrow> [(''category'', x # xs)] | _ \<Rightarrow> []))
        (colls d ''cosmeticproduct'')))"
    by (simp add: list_products_def get_documents_ok [OF assms] list_products_loop_eq)
  have n: "oid_str w \<noteq> []" for w
    using length_oid_str [of w] by auto
  have t: "CosmeticProduct.truncate (to_ProductResponse it) = CosmeticProduct.truncate it" for it
    by (simp add: CosmeticProduct.truncate_def to_ProductResponse_def)
  from create_document_ok [OF assms] obtain d' where
    "create_document d ''cosmeticproduct'' payload = Inr (oid_str (next_id d), d')"
    by blast
  then have "create_product (Some d) payload = Inr ([(''id'', JStr (oid_str (next_id d)))], d')"
    by (simp add: create_product_def)
  then show ?thesis
    unfolding l by (auto simp add: id_field_to_ProductResponse n t)
qed

theorem listed_products_carry_store_id_witness:
  "fault one_product_store = None \<and>
   (\<exists>rs. list_products (Some one_product_store) None = Inr rs \<and>
     (\<forall>r \<in> set rs. \<exists>i. id_field r = Some i \<and> i \<noteq> [] \<and>
        (\<exists>it \<in> set (colls one_product_store ''cosmeticproduct'').
           i = oid_str (mongo_id it) \<and>
           CosmeticProduct.truncate r = CosmeticProduct.truncate it)))"
  using listed_products_carry_store_id [of one_product_store None test_payload]
  by (simp add: fault_one_product_store)

subsection \<open>Creating a product\<close>

text \<open>
  C3: on an available store that does not fault, \<^verbatim>\<open>POST /api/products\<close> succeeds
  for every payload, and the list of products returned afterwards holds a record
  whose fields, the id apart, are those of the payload, and whose id is the one the
  creation returned.
\<close>

theorem create_then_list_roundtrip:
  assumes "fault d = None"
  shows "\<exists>new_id d' rs.
      create_product (Some d) payload = Inr ([(''id'', JStr new_id)], d') \<and>
      list_products (Some d') None = Inr rs \<and>
      (\<exists>r \<in> set rs. CosmeticProduct.truncate r = payload \<and> id_field r = Some new_id)"
proof -
  from create_document_ok [OF assms] obtain d' where
    c: "create_document d ''cosmeticproduct'' payload = Inr (oid_str (next_id d), d')"
    and f: "fault d' = None"
    and s: "colls d' ''cosmeticproduct'' =
      colls d ''cosmeticproduct'' @ [with_id payload (next_id d)]"
    by blast
  let ?r = "to_ProductResponse (with_id payload (next_id d))"
  have "create_product (Some d) payload = Inr ([(''id'', JStr (oid_str (next_id d)))], d')"
    by (simp add: create_product_def c)
  moreover have "list_products (Some d') None =
      Inr (map to_ProductResponse (colls d' ''cosmeticproduct''))"
    by (rule list_products_None [OF f])
  moreover have "?r \<in> set (map to_ProductResponse (colls d' ''cosmeticproduct''))"
    by (simp add: s)
  moreover have "CosmeticProduct.truncate ?r = payload"
    by (rule truncate_to_ProductResponse)
  moreover have "id_field ?r = Some (oid_str (next_id d))"
    by (simp add: id_field_to_ProductResponse with_id_def)
  ultimately show ?thesis by blast
qed

theorem create_then_list_roundtrip_witness:
  "fault empty_store = None \<and>
   (\<exists>new_id d' rs.
      create_product (Some empty_store) test_payload = Inr ([(''id'', JStr new_id)], d') \<and>
      list_products (Some d') None = Inr rs \<and>
      (\<exists>r \<in> set rs. CosmeticProduct.truncate r = test_payload \<and> id_field r = Some new_id))"
  using create_then_list_roundtrip [of empty_store test_payload]
  by (simp add: fault_empty_store)

text \<open>
  C6: on an available store that does not fault, \<^verbatim>\<open>POST /api/products\<close> answers,
  for every payload, with status 201 and the body \<^verbatim>\<open>{"id": new_id}\<close> and nothing
  else, where \<^verbatim>\<open>new_id\<close> is the string of the identifier the store generated for
  the document it has just written.
\<close>

theorem create_product_201_id:
  assumes "fault d = None"
  shows "\<exists>d'. create_product (Some d) payload =
        Inr ([(''id'', JStr (oid_str (next_id d)))], d') \<and>
      app (Some d) env (POST_api_products payload) =
        (Response 201 (Dict [(''id'', JStr (oid_str (next_id d)))]), Some d') \<and>
      colls d' ''cosmeticproduct'' =
        colls d ''cosmeticproduct'' @ [with_id payload (next_id d)] \<and>
      mongo_id (with_id payload (next_id d)) = next_id d"
proof -
  from create_document_ok [OF assms] obtain d' where
    c: "create_document d ''cosmeticproduct'' payload = Inr (oid_str (next_id d), d')"
    and s: "colls d' ''cosmeticproduct'' =
      colls d ''cosmeticproduct'' @ [with_id payload (next_id d)]"
    by blast
  have "create_product (Some d) payload = Inr ([(''id'', JStr (oid_str (next_id d)))], d')"
    by (simp add: create_product_def c)
  then show ?thesis using s
    by (simp add: respond_write_def with_id_def)
qed

theorem create_product_201_id_witness:
  "fault empty_store = None \<and>
   fst (app (Some empty_store) Map.empty (POST_api_products test_payload)) =
     Response 201 (Dict [(''id'', JStr (py ''000000000000000000000000''))])"
proof -
  have n: "next_id empty_store = 0" by (simp add: empty_store_def)
  from create_product_201_id [of empty_store test_payload Map.empty, OF fault_empty_store]
  show ?thesis by (auto simp add: fault_empty_store n oid_str_0 simp del: app.simps)
qed

subsection \<open>The unavailable store\<close>

text \<open>
  C5: when \<^verbatim>\<open>db\<close> is \<^verbatim>\<open>None\<close>, \<^verbatim>\<open>GET /api/products\<close>, \<^verbatim>\<open>POST /api/products\<close> and
  \<^verbatim>\<open>POST /api/seed\<close> raise an \<^verbatim>\<open>HTTPException\<close> of status 500 with the detail
  "Database not configured", while \<^verbatim>\<open>GET /\<close> and \<^verbatim>\<open>GET /api/hello\<close> return their
  messages with status 200.
\<close>

theorem unavailable_store_500:
  "list_products None c = Inl (HTTPException 500 (py ''Database not configured'')) \<and>
   create_product None p = Inl (HTTPException 500 (py ''Database not configured'')) \<and>
   seed_sample_products None = Inl (HTTPException 500 (py ''Database not configured'')) \<and>
   app None env (GET_api_products c) =
     (ErrorResponse 500 (py ''Database not configured''), None) \<and>
   app None env (POST_api_products p) =
     (ErrorResponse 500 (py ''Database not configured''), None) \<and>
   app None env POST_api_seed = (ErrorResponse 500 (py ''Database not configured''), None) \<and>
   app None env GET_root =
     (Response 200 (Dict [(''message'', JStr (py ''Cosmetics Store Backend is running''))]), None) \<and>
   app None env GET_api_hello =
     (Response 200 (Dict [(''message'', JStr (py ''Hello from the backend API!''))]), None)"
  by (simp add: list_products_def create_product_def seed_sample_products_def
      not_configured_def respond_def respond_write_def read_root_def hello_def)

subsection \<open>Categories\<close>

text \<open>
  C4: on an available store that does not fault, \<^verbatim>\<open>GET /api/categories\<close> returns
  the categories of the stored products, without the empty and the null ones,
  each once, in ascending lexicographic order; for the stored categories
  skincare, makeup, skincare it returns makeup, skincare.
\<close>

theorem list_categories_sorted_distinct:
  assumes "fault d = None"
  shows "(\<exists>cats. list_categories (Some d) = Inr cats \<and> sorted cats \<and> distinct cats \<and>
       set cats =
         {c. c \<noteq> [] \<and> (\<exists>it \<in> set (colls d ''cosmeticproduct''). category it = Some c)}) \<and>
     (map category (colls d ''cosmeticproduct'') =
        [Some (py ''skincare''), Some (py ''makeup''), Some (py ''skincare'')] \<longrightarrow>
      list_categories (Some d) = Inr [py ''makeup'', py ''skincare''])"
proof (intro conjI impI)
  let ?cats = "sort (truthy (remdups (map category (colls d ''cosmeticproduct''))))"
  have "set ?cats =
      {c. c \<noteq> [] \<and> (\<exists>it \<in> set (colls d ''cosmeticproduct''). category it = Some c)}"
    by (auto simp add: set_truthy) (metis image_eqI)
  moreover have "distinct ?cats"
    by (simp add: distinct_truthy)
  moreover have "sorted ?cats"
    by simp
  ultimately show "\<exists>cats. list_categories (Some d) = Inr cats \<and> sorted cats \<and>
      distinct cats \<and>
      set cats =
        {c. c \<noteq> [] \<and> (\<exists>it \<in> set (colls d ''cosmeticproduct''). category it = Some c)}"
    using list_categories_ok [OF assms] by blast
next
  assume "map category (colls d ''cosmeticproduct'') =
        [Some (py ''skincare''), Some (py ''makeup''), Some (py ''skincare'')]"
  then show "list_categories (Some d) = Inr [py ''makeup'', py ''skincare'']"
    by (simp add: list_categories_ok [OF assms] truthy_def py_def)
qed

theorem list_categories_sorted_distinct_witness:
  "fault three_product_store = None \<and>
   map category (colls three_product_store ''cosmeticproduct'') =
     [Some (py ''skincare''), Some (py ''makeup''), Some (py ''skincare'')] \<and>
   list_categories (Some three_product_store) = Inr [py ''makeup'', py ''skincare'']"
proof -
  have f: "fault three_product_store = None"
    by (simp add: three_product_store_def empty_store_def)
  have m: "map category (colls three_product_store ''cosmeticproduct'') =
     [Some (py ''skincare''), Some (py ''makeup''), Some (py ''skincare'')]"
    by (simp add: three_product_store_def with_id_def test_payload_def)
  from list_categories_sorted_distinct [of three_product_store, OF f] m f
  show ?thesis by blast
qed

subsection \<open>Seeding\<close>

text \<open>
  C2: on an available store that does not fault, \<^verbatim>\<open>POST /api/seed\<close> inserts
  nothing when the collection holds a document: it leaves the store as it is and
  returns status ok, the message "Products already exist" and the number of stored
  documents. On an empty collection it inserts the four sample records and returns
  status ok and inserted 4; a second call then returns the message with count 4 and
  leaves the store as the first call left it.
\<close>

theorem seed_sample_products_idempotent:
  assumes "fault d = None"
  shows "(colls d ''cosmeticproduct'' \<noteq> [] \<longrightarrow>
      seed_sample_products (Some d) =
        Inr ([(''status'', JStr (py ''ok'')),
              (''message'', JStr (py ''Products already exist'')),
              (''count'', JInt (int (length (colls d ''cosmeticproduct''))))], d)) \<and>
    (colls d ''cosmeticproduct'' = [] \<longrightarrow>
      (\<exists>d'. seed_sample_products (Some d) =
          Inr ([(''status'', JStr (py ''ok'')), (''inserted'', JInt 4)], d') \<and>
        map CosmeticProduct.truncate (colls d' ''cosmeticproduct'') = samples \<and>
        seed_sample_products (Some d') =
          Inr ([(''status'', JStr (py ''ok'')),
                (''message'', JStr (py ''Products already exist'')),
                (''count'', JInt 4)], d') \<and>
        app (Some d') env POST_api_seed =
          (Response 200 (Dict [(''status'', JStr (py ''ok'')),
             (''message'', JStr (py ''Products already exist'')),
             (''count'', JInt 4)]), Some d')))"
proof (intro conjI impI)
  assume "colls d ''cosmeticproduct'' \<noteq> []"
  then show "seed_sample_products (Some d) =
        Inr ([(''status'', JStr (py ''ok'')),
              (''message'', JStr (py ''Products already exist'')),
              (''count'', JInt (int (length (colls d ''cosmeticproduct''))))], d)"
    by (simp add: seed_sample_products_def count_documents_ok [OF assms])
next
  assume e: "colls d ''cosmeticproduct'' = []"
  from seed_loop_ok [OF assms, of samples] e obtain d' where
    l: "seed_loop d samples = Inr d'" and f: "fault d' = None"
    and m: "map CosmeticProduct.truncate (colls d' ''cosmeticproduct'') = samples"
    by auto
  from m have n: "length (colls d' ''cosmeticproduct'') = 4"
    using length_samples length_map by metis
  have 1: "seed_sample_products (Some d) =
      Inr ([(''status'', JStr (py ''ok'')), (''inserted'', JInt 4)], d')"
    by (simp add: seed_sample_products_def count_documents_ok [OF assms] e l length_samples)
  have 2: "seed_sample_products (Some d') =
      Inr ([(''status'', JStr (py ''ok'')),
            (''message'', JStr (py ''Products already exist'')),
            (''count'', JInt 4)], d')"
    by (simp add: seed_sample_products_def count_documents_ok [OF f] n)
  have 3: "app (Some d') env POST_api_seed =
          (Response 200 (Dict [(''status'', JStr (py ''ok'')),
             (''message'', JStr (py ''Products already exist'')),
             (''count'', JInt 4)]), Some d')"
    by (simp add: 2 respond_write_def)
  from 1 2 3 m show "\<exists>d'. seed_sample_products (Some d) =
          Inr ([(''status'', JStr (py ''ok'')), (''inserted'', JInt 4)], d') \<and>
        map CosmeticProduct.truncate (colls d' ''cosmeticproduct'') = samples \<and>
        seed_sample_products (Some d') =
          Inr ([(''status'', JStr (py ''ok'')),
                (''message'', JStr (py ''Products already exist'')),
                (''count'', JInt 4)], d') \<and>
        app (Some d') env POST_api_seed =
          (Response 200 (Dict [(''status'', JStr (py ''ok'')),
             (''message'', JStr (py ''Products already exist'')),
             (''count'', JInt 4)]), Some d')"
    by blast
qed

theorem seed_sample_products_idempotent_witness:
  "fault one_product_store = None \<and> fault empty_store = None \<and>
   colls one_product_store ''cosmeticproduct'' \<noteq> [] \<and>
   colls empty_store ''cosmeticproduct'' = [] \<and>
   seed_sample_products (Some one_product_store) =
     Inr ([(''status'', JStr (py ''ok'')),
           (''message'', JStr (py ''Products already exist'')),
           (''count'', JInt 1)], one_product_store) \<and>
   (\<exists>d'. seed_sample_products (Some empty_store) =
          Inr ([(''status'', JStr (py ''ok'')), (''inserted'', JInt 4)], d') \<and>
        seed_sample_products (Some d') =
          Inr ([(''status'', JStr (py ''ok'')),
                (''message'', JStr (py ''Products already exist'')),
                (''count'', JInt 4)], d'))"
proof -
  have e: "colls empty_store ''cosmeticproduct'' = []" by (simp add: empty_store_def)
  from seed_sample_products_idempotent [of one_product_store Map.empty,
      OF fault_one_product_store]
    seed_sample_products_idempotent [of empty_store Map.empty, OF fault_empty_store]
  show ?thesis
    by (auto simp add: fault_one_product_store fault_empty_store colls_one_product_store e
        simp del: app.simps)
qed

subsection \<open>Store faults\<close>




text \<open>
  C10: \<^verbatim>\<open>GET /test\<close> returns its diagnostic object, with status 200, on every
  state of the store and of the environment. When \<^verbatim>\<open>db\<close> is \<^verbatim>\<open>None\<close> the
  field \<^verbatim>\<open>database\<close> says so; when the store works it reports at most ten
  collection names; when the store faults the exception is caught and at most 50
  characters of its text are put into the field \<^verbatim>\<open>database\<close>.
\<close>

theorem test_database_total:
  "\<exists>r. test_database db env = Inr r \<and>
     app db env GET_test = (Response 200 (Diagnostic r), db) \<and>
     (case db of
        None \<Rightarrow>
          database r = warning_sign @ py ''  Available but not initialized'' \<and>
          collections r = []
      | Some d \<Rightarrow>
          (case fault d of
             None \<Rightarrow>
               database r = check_mark @ py '' Connected & Working'' \<and>
               collections r = take 10 (map py (coll_names d))
           | Some m \<Rightarrow>
               database r = warning_sign @ py ''  Connected but Error: '' @ take 50 m \<and>
               length (database r) \<le> 75 \<and> collections r = []))"
  by (simp add: test_database_def test_database_body_def test_database_inner_def
      list_collection_names_def driver_def Let_def respond_def warning_sign_def py_def
      split: option.splits)

end
